theory Spec2Isabelle
  imports Main "HOL-Library.Word"
begin

section \<open>CoordinateConversionOptions: the options record of the coordinate conversion tool\<close>

text \<open>
  A shallow embedding of \<^verbatim>\<open>Plugin/CppApi/source/CoordinateConversionOptions.cpp\<close>.
  The class is a \<^theory_text>\<open>record\<close> of its member variables, each enum is a
  \<^theory_text>\<open>datatype\<close>, a C++ \<^verbatim>\<open>int\<close> is a 32-bit word read with \<open>sint\<close>, a
  \<^verbatim>\<open>QString\<close> is a \<open>string\<close> (\<^verbatim>\<open>==\<close> on QString compares the two sequences
  of code units, which is equality of lists), and \<^verbatim>\<open>emit\<close> appends the signal to
  the list of signals raised so far.
\<close>

subsection \<open>Enumerations\<close>

text \<open>
  The six enumerators of \<^verbatim>\<open>CoordinateType\<close>, in the order of the source's
  documentation. A C++ enum object can also hold a value of its underlying integer type
  that no enumerator names (a cast, or a number handed over by the declarative layer);
  \<open>CoordinateTypeUnnamed n\<close> stands for such a value, \<open>n\<close> telling one from another.
  It is what the \<^verbatim>\<open>default:\<close> label of \<^verbatim>\<open>coordinateTypeToString\<close> catches.
\<close>

datatype CoordinateType =
    CoordinateTypeGars
  | CoordinateTypeGeoRef
  | CoordinateTypeLatLon
  | CoordinateTypeMgrs
  | CoordinateTypeUsng
  | CoordinateTypeUtm
  | CoordinateTypeUnnamed "32 word"

datatype MgrsConversionMode =
    MgrsConversionModeAutomatic
  | MgrsConversionModeNew180InZone01
  | MgrsConversionModeNew180InZone60
  | MgrsConversionModeOld180InZone01
  | MgrsConversionModeOld180InZone60

datatype UtmConversionMode =
    UtmConversionModeLatitudeBandIndicators
  | UtmConversionModeNorthSouthIndicators

datatype LatitudeLongitudeFormat =
    LatitudeLongitudeFormatDecimalDegrees
  | LatitudeLongitudeFormatDegreesDecimalMinutes
  | LatitudeLongitudeFormatDegreesMinutesSeconds

subsection \<open>The object and its signals\<close>

record CoordinateConversionOptions =
  m_outputMode :: CoordinateType
  m_name :: string
  m_addSpaces :: bool
  m_precision :: "32 word"
  m_decimalPlaces :: "32 word"
  m_mgrsConversionMode :: MgrsConversionMode
  m_latLonFormat :: LatitudeLongitudeFormat
  m_utmConversionMode :: UtmConversionMode

datatype Signal =
    outputModeChanged
  | nameChanged
  | addSpacesChanged
  | precisionChanged
  | decimalPlacesChanged
  | mgrsConversionModeChanged
  | latLonFormatChanged
  | utmConversionModeChanged

text \<open>
  A non-const member function runs on the object together with the signals it has raised
  so far, oldest first, and returns both.
\<close>

type_synonym Emitting = "CoordinateConversionOptions \<times> Signal list"

definition emit :: "Signal \<Rightarrow> Emitting \<Rightarrow> Emitting" where
  "emit sig st = (fst st, snd st @ [sig])"

subsection \<open>Static strings\<close>

definition s_gars :: string where "s_gars = ''Gars''"
definition s_georef :: string where "s_georef = ''GeoRef''"
definition s_latlon :: string where "s_latlon = ''LatLon''"
definition s_mgrs :: string where "s_mgrs = ''Mgrs''"
definition s_usng :: string where "s_usng = ''Usng''"
definition s_utm :: string where "s_utm = ''Utm''"

subsection \<open>Constructor\<close>

text \<open>
  Modelled from the spec: the in-class initialisers of the member variables, which are in
  the header \<^verbatim>\<open>CoordinateConversionOptions.h\<close>, absent from the source. The
  constructor's own body is empty and its initialiser list only passes \<open>parent\<close> on to
  \<^verbatim>\<open>QObject\<close>, so the header alone decides the state of a new object. The defaults are
  those the specification and the property documentation give: Usng, precision 8, six
  decimal places, automatic MGRS mode, decimal degrees, latitude band indicators. Neither
  gives a default for \<open>name\<close> and \<open>addSpaces\<close>: they are the parameters \<open>name0\<close> and
  \<open>addSpaces0\<close>. A new object has raised no signal.
\<close>

definition new_CoordinateConversionOptions :: "string \<Rightarrow> bool \<Rightarrow> Emitting" where
  "new_CoordinateConversionOptions name0 addSpaces0 =
     (\<lparr> m_outputMode = CoordinateTypeUsng,
        m_name = name0,
        m_addSpaces = addSpaces0,
        m_precision = 8,
        m_decimalPlaces = 6,
        m_mgrsConversionMode = MgrsConversionModeAutomatic,
        m_latLonFormat = LatitudeLongitudeFormatDecimalDegrees,
        m_utmConversionMode = UtmConversionModeLatitudeBandIndicators \<rparr>, [])"

subsection \<open>Properties\<close>

definition outputMode :: "CoordinateConversionOptions \<Rightarrow> CoordinateType" where
  "outputMode this = m_outputMode this"

definition setOutputMode :: "CoordinateType \<Rightarrow> Emitting \<Rightarrow> Emitting" where
  "setOutputMode outputMode' st =
     emit outputModeChanged ((fst st)\<lparr>m_outputMode := outputMode'\<rparr>, snd st)"

definition name :: "CoordinateConversionOptions \<Rightarrow> string" where
  "name this = m_name this"

definition setName :: "string \<Rightarrow> Emitting \<Rightarrow> Emitting" where
  "setName name' st = emit nameChanged ((fst st)\<lparr>m_name := name'\<rparr>, snd st)"

definition addSpaces :: "CoordinateConversionOptions \<Rightarrow> bool" where
  "addSpaces this = m_addSpaces this"

definition setAddSpaces :: "bool \<Rightarrow> Emitting \<Rightarrow> Emitting" where
  "setAddSpaces addSpaces' st =
     emit addSpacesChanged ((fst st)\<lparr>m_addSpaces := addSpaces'\<rparr>, snd st)"

definition precision :: "CoordinateConversionOptions \<Rightarrow> 32 word" where
  "precision this = m_precision this"

definition setPrecision :: "32 word \<Rightarrow> Emitting \<Rightarrow> Emitting" where
  "setPrecision precision' st =
     emit precisionChanged ((fst st)\<lparr>m_precision := precision'\<rparr>, snd st)"

definition decimalPlaces :: "CoordinateConversionOptions \<Rightarrow> 32 word" where
  "decimalPlaces this = m_decimalPlaces this"

definition setDecimalPlaces :: "32 word \<Rightarrow> Emitting \<Rightarrow> Emitting" where
  "setDecimalPlaces decimalPlaces' st =
     emit decimalPlacesChanged ((fst st)\<lparr>m_decimalPlaces := decimalPlaces'\<rparr>, snd st)"

definition mgrsConversionMode :: "CoordinateConversionOptions \<Rightarrow> MgrsConversionMode" where
  "mgrsConversionMode this = m_mgrsConversionMode this"

definition setMgrsConversionMode :: "MgrsConversionMode \<Rightarrow> Emitting \<Rightarrow> Emitting" where
  "setMgrsConversionMode mgrsConversionMode' st =
     emit mgrsConversionModeChanged
       ((fst st)\<lparr>m_mgrsConversionMode := mgrsConversionMode'\<rparr>, snd st)"

definition latLonFormat :: "CoordinateConversionOptions \<Rightarrow> LatitudeLongitudeFormat" where
  "latLonFormat this = m_latLonFormat this"

definition setLatLonFormat :: "LatitudeLongitudeFormat \<Rightarrow> Emitting \<Rightarrow> Emitting" where
  "setLatLonFormat latLonFormat' st =
     emit latLonFormatChanged ((fst st)\<lparr>m_latLonFormat := latLonFormat'\<rparr>, snd st)"

definition utmConversionMode :: "CoordinateConversionOptions \<Rightarrow> UtmConversionMode" where
  "utmConversionMode this = m_utmConversionMode this"

definition setUtmConversionMode :: "UtmConversionMode \<Rightarrow> Emitting \<Rightarrow> Emitting" where
  "setUtmConversionMode utmConversionMode' st =
     emit utmConversionModeChanged
       ((fst st)\<lparr>m_utmConversionMode := utmConversionMode'\<rparr>, snd st)"

subsection \<open>Conversion helpers\<close>

text \<open>
  Both helpers are const member functions that never read a member: \<open>this\<close> is kept as
  an argument so that independence of the object's state can be stated.
\<close>

definition stringToCoordinateType :: "CoordinateConversionOptions \<Rightarrow> string \<Rightarrow> CoordinateType" where
  "stringToCoordinateType this type =
     (if type = s_gars then CoordinateTypeGars
      else if type = s_georef then CoordinateTypeGeoRef
      else if type = s_latlon then CoordinateTypeLatLon
      else if type = s_mgrs then CoordinateTypeMgrs
      else if type = s_usng then CoordinateTypeUsng
      else if type = s_utm then CoordinateTypeUtm
      else CoordinateTypeLatLon)"

text \<open>The default-constructed \<^verbatim>\<open>QString()\<close> of the last line is the string of length 0.\<close>

fun coordinateTypeToString :: "CoordinateConversionOptions \<Rightarrow> CoordinateType \<Rightarrow> string" where
  "coordinateTypeToString this CoordinateTypeGars = s_gars"
| "coordinateTypeToString this CoordinateTypeGeoRef = s_georef"
| "coordinateTypeToString this CoordinateTypeLatLon = s_latlon"
| "coordinateTypeToString this CoordinateTypeMgrs = s_mgrs"
| "coordinateTypeToString this CoordinateTypeUsng = s_usng"
| "coordinateTypeToString this CoordinateTypeUtm = s_utm"
| "coordinateTypeToString this (CoordinateTypeUnnamed n) = []"

definition coordinateTypeNames :: "CoordinateConversionOptions \<Rightarrow> string list" where
  "coordinateTypeNames this = [] @ [s_gars] @ [s_georef] @ [s_latlon] @ [s_mgrs] @ [s_usng] @ [s_utm]"

subsection \<open>List-binding callbacks\<close>

text \<open>
  The callbacks work on pointers. A store holds the live controller objects and the live
  \<^verbatim>\<open>QList<CoordinateConversionOptions*>\<close> objects by address; the controller class is
  not part of the source, so its state is the type variable \<open>'c\<close>. A
  \<^verbatim>\<open>QQmlListProperty\<close> carries the two pointers the callbacks read. Following a
  pointer that is null or not live is undefined behaviour in C++: the model returns
  \<open>None\<close> there.
\<close>

datatype pointer = nullptr | Addr nat

record 'c Store =
  controllers :: "nat \<rightharpoonup> 'c"
  qlists :: "nat \<rightharpoonup> pointer list"

record QQmlListProperty =
  object :: pointer
  data :: pointer

definition controllerAt :: "'c Store \<Rightarrow> pointer \<Rightarrow> nat option" where
  "controllerAt st p =
     (case p of nullptr \<Rightarrow> None
      | Addr a \<Rightarrow> (case controllers st a of None \<Rightarrow> None | Some c \<Rightarrow> Some a))"

definition qlistAt :: "'c Store \<Rightarrow> pointer \<Rightarrow> pointer list option" where
  "qlistAt st p = (case p of nullptr \<Rightarrow> None | Addr a \<Rightarrow> qlists st a)"

text \<open>
  Modelled from the spec: \<^verbatim>\<open>QList::value(int)\<close> and \<^verbatim>\<open>QList::count()\<close> of the Qt
  library, which the source calls and does not define; the specification leaves the
  indexed access to the list's own contract, which is Qt's. \<open>value\<close> returns the
  element at the index when the index is within the list and a default-constructed
  element, the null pointer for a list of pointers, otherwise; \<open>count\<close> is the number
  of elements as an \<^verbatim>\<open>int\<close>.
\<close>

definition QList_value :: "pointer list \<Rightarrow> 32 word \<Rightarrow> pointer" where
  "QList_value xs i =
     (if sint i < 0 \<or> int (length xs) \<le> sint i then nullptr else xs ! nat (sint i))"

definition QList_count :: "pointer list \<Rightarrow> 32 word" where
  "QList_count xs = word_of_nat (length xs)"

text \<open>
  \<^verbatim>\<open>addOption\<close> and \<^verbatim>\<open>clearOptions\<close> are member functions of the controller, not
  part of the source: they are parameters here, given the address of the controller they
  are called on and the whole store, which they may change anywhere.
\<close>

definition listAppend ::
  "(nat \<Rightarrow> pointer \<Rightarrow> 'c Store \<Rightarrow> 'c Store) \<Rightarrow> QQmlListProperty \<Rightarrow> pointer \<Rightarrow> 'c Store \<Rightarrow> 'c Store option" where
  "listAppend addOption property val st =
     (case controllerAt st (object property) of
        None \<Rightarrow> None
      | Some c \<Rightarrow> Some (addOption c val st))"

definition listAt :: "QQmlListProperty \<Rightarrow> 32 word \<Rightarrow> 'c Store \<Rightarrow> pointer option" where
  "listAt property index st =
     (case qlistAt st (data property) of
        None \<Rightarrow> None
      | Some xs \<Rightarrow> Some (QList_value xs index))"

definition listCount :: "QQmlListProperty \<Rightarrow> 'c Store \<Rightarrow> 32 word option" where
  "listCount property st =
     (case qlistAt st (data property) of
        None \<Rightarrow> None
      | Some xs \<Rightarrow> Some (QList_count xs))"

definition listClear ::
  "(nat \<Rightarrow> 'c Store \<Rightarrow> 'c Store) \<Rightarrow> QQmlListProperty \<Rightarrow> 'c Store \<Rightarrow> 'c Store option" where
  "listClear clearOptions property st =
     (case controllerAt st (object property) of
        None \<Rightarrow> None
      | Some c \<Rightarrow> Some (clearOptions c st))"

section \<open>Properties of the embedding\<close>

lemmas string_defs = s_gars_def s_georef_def s_latlon_def s_mgrs_def s_usng_def s_utm_def

lemmas getter_defs = outputMode_def name_def addSpaces_def precision_def decimalPlaces_def
  mgrsConversionMode_def latLonFormat_def utmConversionMode_def

lemmas setter_defs = setOutputMode_def setName_def setAddSpaces_def setPrecision_def
  setDecimalPlaces_def setMgrsConversionMode_def setLatLonFormat_def setUtmConversionMode_def

lemma fst_emit: "fst (emit sig st) = fst st"
  by (simp add: emit_def)

text \<open>The object a setter leaves behind is the object it found with one member assigned.\<close>

lemma setter_object:
  "fst (setOutputMode v1 st) = (fst st)\<lparr>m_outputMode := v1\<rparr>"
  "fst (setName v2 st) = (fst st)\<lparr>m_name := v2\<rparr>"
  "fst (setAddSpaces v3 st) = (fst st)\<lparr>m_addSpaces := v3\<rparr>"
  "fst (setPrecision v4 st) = (fst st)\<lparr>m_precision := v4\<rparr>"
  "fst (setDecimalPlaces v5 st) = (fst st)\<lparr>m_decimalPlaces := v5\<rparr>"
  "fst (setMgrsConversionMode v6 st) = (fst st)\<lparr>m_mgrsConversionMode := v6\<rparr>"
  "fst (setLatLonFormat v7 st) = (fst st)\<lparr>m_latLonFormat := v7\<rparr>"
  "fst (setUtmConversionMode v8 st) = (fst st)\<lparr>m_utmConversionMode := v8\<rparr>"
  by (simp_all add: setter_defs fst_emit)

subsection \<open>Setters and getters\<close>

text \<open>
  C1. For each of the eight properties, the getter applied after the setter returns the
  value the setter was given, whatever the value and whatever the object held before: no
  setter checks or clamps its argument, and none has an error result (its type has no
  failure value). In particular \<open>setPrecision\<close> with -1 and with 99 leaves \<open>precision\<close>
  reading -1 and 99, as signed 32-bit integers.
\<close>

theorem setter_then_getter:
  "outputMode (fst (setOutputMode v1 st)) = v1 \<and>
   name (fst (setName v2 st)) = v2 \<and>
   addSpaces (fst (setAddSpaces v3 st)) = v3 \<and>
   precision (fst (setPrecision v4 st)) = v4 \<and>
   decimalPlaces (fst (setDecimalPlaces v5 st)) = v5 \<and>
   mgrsConversionMode (fst (setMgrsConversionMode v6 st)) = v6 \<and>
   latLonFormat (fst (setLatLonFormat v7 st)) = v7 \<and>
   utmConversionMode (fst (setUtmConversionMode v8 st)) = v8 \<and>
   sint (precision (fst (setPrecision (- 1) st))) = - 1 \<and>
   sint (precision (fst (setPrecision 99 st))) = 99"
  by (simp add: setter_object getter_defs)

subsection \<open>Conversion helpers\<close>

text \<open>
  C2. For each of the six coordinate types Gars, GeoRef, LatLon, Mgrs, Usng and Utm,
  converting the type to its string and the string back gives the type again.
\<close>

theorem string_round_trip:
  assumes "T \<in> {CoordinateTypeGars, CoordinateTypeGeoRef, CoordinateTypeLatLon,
                 CoordinateTypeMgrs, CoordinateTypeUsng, CoordinateTypeUtm}"
  shows "stringToCoordinateType this (coordinateTypeToString this T) = T"
proof (cases T)
  case (CoordinateTypeUnnamed n)
  with assms show ?thesis by simp
qed (simp_all add: stringToCoordinateType_def string_defs)

theorem string_round_trip_witness:
  "CoordinateTypeMgrs \<in> {CoordinateTypeGars, CoordinateTypeGeoRef, CoordinateTypeLatLon,
                           CoordinateTypeMgrs, CoordinateTypeUsng, CoordinateTypeUtm} \<and>
   stringToCoordinateType (fst (new_CoordinateConversionOptions [] False))
     (coordinateTypeToString (fst (new_CoordinateConversionOptions [] False)) CoordinateTypeMgrs)
   = CoordinateTypeMgrs"
  using string_round_trip [of CoordinateTypeMgrs "fst (new_CoordinateConversionOptions [] False)"]
  by simp

text \<open>
  C3. \<open>stringToCoordinateType\<close> maps each of the six exact strings to its enumerator.
  The match is case-sensitive: every string that is not one of the six, such as a case
  variant of one of them or "bogus", is mapped to LatLon, which is a result like the
  others and not a failure.
\<close>

theorem stringToCoordinateType_table:
  "stringToCoordinateType this ''Gars'' = CoordinateTypeGars \<and>
   stringToCoordinateType this ''GeoRef'' = CoordinateTypeGeoRef \<and>
   stringToCoordinateType this ''LatLon'' = CoordinateTypeLatLon \<and>
   stringToCoordinateType this ''Mgrs'' = CoordinateTypeMgrs \<and>
   stringToCoordinateType this ''Usng'' = CoordinateTypeUsng \<and>
   stringToCoordinateType this ''Utm'' = CoordinateTypeUtm \<and>
   (type \<notin> {''Gars'', ''GeoRef'', ''LatLon'', ''Mgrs'', ''Usng'', ''Utm''} \<longrightarrow>
      stringToCoordinateType this type = CoordinateTypeLatLon) \<and>
   stringToCoordinateType this ''gars'' = CoordinateTypeLatLon \<and>
   stringToCoordinateType this ''GEOREF'' = CoordinateTypeLatLon \<and>
   stringToCoordinateType this ''mgrs'' = CoordinateTypeLatLon \<and>
   stringToCoordinateType this ''USNG'' = CoordinateTypeLatLon \<and>
   stringToCoordinateType this ''utm'' = CoordinateTypeLatLon \<and>
   stringToCoordinateType this ''bogus'' = CoordinateTypeLatLon"
  by (simp add: stringToCoordinateType_def string_defs)

theorem stringToCoordinateType_table_witness:
  "''bogus'' \<notin> {''Gars'', ''GeoRef'', ''LatLon'', ''Mgrs'', ''Usng'', ''Utm''} \<and>
   stringToCoordinateType (fst (new_CoordinateConversionOptions [] False)) ''bogus'' = CoordinateTypeLatLon \<and>
   ''MGRS'' \<notin> {''Gars'', ''GeoRef'', ''LatLon'', ''Mgrs'', ''Usng'', ''Utm''} \<and>
   stringToCoordinateType (fst (new_CoordinateConversionOptions [] False)) ''MGRS'' = CoordinateTypeLatLon"
  using stringToCoordinateType_table [of "fst (new_CoordinateConversionOptions [] False)" "''bogus''"]
        stringToCoordinateType_table [of "fst (new_CoordinateConversionOptions [] False)" "''MGRS''"]
  by simp

text \<open>
  C4. \<open>coordinateTypeToString\<close> maps each of the six enumerators to its canonical
  string, and every other value of the enum type to the empty string; it has no error
  result.
\<close>

theorem coordinateTypeToString_table:
  "coordinateTypeToString this CoordinateTypeGars = ''Gars'' \<and>
   coordinateTypeToString this CoordinateTypeGeoRef = ''GeoRef'' \<and>
   coordinateTypeToString this CoordinateTypeLatLon = ''LatLon'' \<and>
   coordinateTypeToString this CoordinateTypeMgrs = ''Mgrs'' \<and>
   coordinateTypeToString this CoordinateTypeUsng = ''Usng'' \<and>
   coordinateTypeToString this CoordinateTypeUtm = ''Utm'' \<and>
   (T \<notin> {CoordinateTypeGars, CoordinateTypeGeoRef, CoordinateTypeLatLon,
           CoordinateTypeMgrs, CoordinateTypeUsng, CoordinateTypeUtm} \<longrightarrow>
      coordinateTypeToString this T = [])"
  by (cases T) (simp_all add: string_defs)

theorem coordinateTypeToString_table_witness:
  "CoordinateTypeUnnamed 42 \<notin> {CoordinateTypeGars, CoordinateTypeGeoRef, CoordinateTypeLatLon,
           CoordinateTypeMgrs, CoordinateTypeUsng, CoordinateTypeUtm} \<and>
   coordinateTypeToString (fst (new_CoordinateConversionOptions [] False)) (CoordinateTypeUnnamed 42) = []"
  using coordinateTypeToString_table
          [of "fst (new_CoordinateConversionOptions [] False)" "CoordinateTypeUnnamed 42"]
  by simp

text \<open>
  C5. \<open>coordinateTypeNames\<close> returns the list Gars, GeoRef, LatLon, Mgrs, Usng, Utm, in
  this order, on every object.
\<close>

theorem coordinateTypeNames_fixed:
  "coordinateTypeNames this = [''Gars'', ''GeoRef'', ''LatLon'', ''Mgrs'', ''Usng'', ''Utm'']"
  by (simp add: coordinateTypeNames_def string_defs)

subsection \<open>Notifications\<close>

text \<open>
  C6. Each call of a setter raises exactly one signal, the one of its own property: the
  signals raised after the call are those raised before it followed by that one signal.
  This holds for every argument and every object, so also when the argument is the value
  the object already holds.
\<close>

theorem setter_emits_once:
  "snd (setOutputMode v1 st) = snd st @ [outputModeChanged] \<and>
   snd (setName v2 st) = snd st @ [nameChanged] \<and>
   snd (setAddSpaces v3 st) = snd st @ [addSpacesChanged] \<and>
   snd (setPrecision v4 st) = snd st @ [precisionChanged] \<and>
   snd (setDecimalPlaces v5 st) = snd st @ [decimalPlacesChanged] \<and>
   snd (setMgrsConversionMode v6 st) = snd st @ [mgrsConversionModeChanged] \<and>
   snd (setLatLonFormat v7 st) = snd st @ [latLonFormatChanged] \<and>
   snd (setUtmConversionMode v8 st) = snd st @ [utmConversionModeChanged] \<and>
   setOutputMode (outputMode (fst st)) st = (fst st, snd st @ [outputModeChanged]) \<and>
   setPrecision (precision (fst st)) st = (fst st, snd st @ [precisionChanged])"
  by (simp add: setter_defs getter_defs emit_def)

subsection \<open>Frame\<close>

text \<open>
  C7. A setter changes the member of its own property only: after the call every other
  getter returns what it returned before. Hence, on an object whose output mode is Mgrs
  and whose MGRS conversion mode and precision have been set, setting the output mode to
  Utm and back to Mgrs leaves the MGRS conversion mode and the precision as they were set.
\<close>

theorem setter_frame:
  "(name (fst (setOutputMode v1 st)) = name (fst st) \<and>
    addSpaces (fst (setOutputMode v1 st)) = addSpaces (fst st) \<and>
    precision (fst (setOutputMode v1 st)) = precision (fst st) \<and>
    decimalPlaces (fst (setOutputMode v1 st)) = decimalPlaces (fst st) \<and>
    mgrsConversionMode (fst (setOutputMode v1 st)) = mgrsConversionMode (fst st) \<and>
    latLonFormat (fst (setOutputMode v1 st)) = latLonFormat (fst st) \<and>
    utmConversionMode (fst (setOutputMode v1 st)) = utmConversionMode (fst st)) \<and>
   (outputMode (fst (setName v2 st)) = outputMode (fst st) \<and>
    addSpaces (fst (setName v2 st)) = addSpaces (fst st) \<and>
    precision (fst (setName v2 st)) = precision (fst st) \<and>
    decimalPlaces (fst (setName v2 st)) = decimalPlaces (fst st) \<and>
    mgrsConversionMode (fst (setName v2 st)) = mgrsConversionMode (fst st) \<and>
    latLonFormat (fst (setName v2 st)) = latLonFormat (fst st) \<and>
    utmConversionMode (fst (setName v2 st)) = utmConversionMode (fst st)) \<and>
   (outputMode (fst (setAddSpaces v3 st)) = outputMode (fst st) \<and>
    name (fst (setAddSpaces v3 st)) = name (fst st) \<and>
    precision (fst (setAddSpaces v3 st)) = precision (fst st) \<and>
    decimalPlaces (fst (setAddSpaces v3 st)) = decimalPlaces (fst st) \<and>
    mgrsConversionMode (fst (setAddSpaces v3 st)) = mgrsConversionMode (fst st) \<and>
    latLonFormat (fst (setAddSpaces v3 st)) = latLonFormat (fst st) \<and>
    utmConversionMode (fst (setAddSpaces v3 st)) = utmConversionMode (fst st)) \<and>
   (outputMode (fst (setPrecision v4 st)) = outputMode (fst st) \<and>
    name (fst (setPrecision v4 st)) = name (fst st) \<and>
    addSpaces (fst (setPrecision v4 st)) = addSpaces (fst st) \<and>
    decimalPlaces (fst (setPrecision v4 st)) = decimalPlaces (fst st) \<and>
    mgrsConversionMode (fst (setPrecision v4 st)) = mgrsConversionMode (fst st) \<and>
    latLonFormat (fst (setPrecision v4 st)) = latLonFormat (fst st) \<and>
    utmConversionMode (fst (setPrecision v4 st)) = utmConversionMode (fst st)) \<and>
   (outputMode (fst (setDecimalPlaces v5 st)) = outputMode (fst st) \<and>
    name (fst (setDecimalPlaces v5 st)) = name (fst st) \<and>
    addSpaces (fst (setDecimalPlaces v5 st)) = addSpaces (fst st) \<and>
    precision (fst (setDecimalPlaces v5 st)) = precision (fst st) \<and>
    mgrsConversionMode (fst (setDecimalPlaces v5 st)) = mgrsConversionMode (fst st) \<and>
    latLonFormat (fst (setDecimalPlaces v5 st)) = latLonFormat (fst st) \<and>
    utmConversionMode (fst (setDecimalPlaces v5 st)) = utmConversionMode (fst st)) \<and>
   (outputMode (fst (setMgrsConversionMode v6 st)) = outputMode (fst st) \<and>
    name (fst (setMgrsConversionMode v6 st)) = name (fst st) \<and>
    addSpaces (fst (setMgrsConversionMode v6 st)) = addSpaces (fst st) \<and>
    precision (fst (setMgrsConversionMode v6 st)) = precision (fst st) \<and>
    decimalPlaces (fst (setMgrsConversionMode v6 st)) = decimalPlaces (fst st) \<and>
    latLonFormat (fst (setMgrsConversionMode v6 st)) = latLonFormat (fst st) \<and>
    utmConversionMode (fst (setMgrsConversionMode v6 st)) = utmConversionMode (fst st)) \<and>
   (outputMode (fst (setLatLonFormat v7 st)) = outputMode (fst st) \<and>
    name (fst (setLatLonFormat v7 st)) = name (fst st) \<and>
    addSpaces (fst (setLatLonFormat v7 st)) = addSpaces (fst st) \<and>
    precision (fst (setLatLonFormat v7 st)) = precision (fst st) \<and>
    decimalPlaces (fst (setLatLonFormat v7 st)) = decimalPlaces (fst st) \<and>
    mgrsConversionMode (fst (setLatLonFormat v7 st)) = mgrsConversionMode (fst st) \<and>
    utmConversionMode (fst (setLatLonFormat v7 st)) = utmConversionMode (fst st)) \<and>
   (outputMode (fst (setUtmConversionMode v8 st)) = outputMode (fst st) \<and>
    name (fst (setUtmConversionMode v8 st)) = name (fst st) \<and>
    addSpaces (fst (setUtmConversionMode v8 st)) = addSpaces (fst st) \<and>
    precision (fst (setUtmConversionMode v8 st)) = precision (fst st) \<and>
    decimalPlaces (fst (setUtmConversionMode v8 st)) = decimalPlaces (fst st) \<and>
    mgrsConversionMode (fst (setUtmConversionMode v8 st)) = mgrsConversionMode (fst st) \<and>
    latLonFormat (fst (setUtmConversionMode v8 st)) = latLonFormat (fst st)) \<and>
   (let st1 = setPrecision p (setMgrsConversionMode m (setOutputMode CoordinateTypeMgrs st));
        st2 = setOutputMode CoordinateTypeMgrs (setOutputMode CoordinateTypeUtm st1)
    in outputMode (fst st2) = CoordinateTypeMgrs \<and>
       mgrsConversionMode (fst st2) = m \<and>
       precision (fst st2) = p \<and>
       mgrsConversionMode (fst (setOutputMode CoordinateTypeUtm st1)) = m \<and>
       precision (fst (setOutputMode CoordinateTypeUtm st1)) = p)"
  unfolding Let_def by (simp add: setter_object getter_defs)

subsection \<open>Defaults\<close>

text \<open>
  C8. On a newly constructed object, before any setter is called, \<open>outputMode\<close> returns
  Usng.
\<close>

theorem default_outputMode:
  "outputMode (fst (new_CoordinateConversionOptions name0 addSpaces0)) = CoordinateTypeUsng"
  by (simp add: new_CoordinateConversionOptions_def outputMode_def)

subsection \<open>List-binding callbacks\<close>

lemma controllerAt_live:
  "controllers st c = Some ctl \<Longrightarrow> controllerAt st (Addr c) = Some c"
  by (simp add: controllerAt_def)

lemma qlistAt_live: "qlistAt st (Addr d) = qlists st d"
  by (simp add: qlistAt_def)

lemma QList_value_in_range:
  "0 \<le> sint i \<Longrightarrow> sint i < int (length xs) \<Longrightarrow> QList_value xs i = xs ! nat (sint i)"
  by (simp add: QList_value_def)

lemma QList_value_out_of_range:
  "sint i < 0 \<or> int (length xs) \<le> sint i \<Longrightarrow> QList_value xs i = nullptr"
  by (simp add: QList_value_def)

text \<open>
  C9. When the property's \<open>object\<close> points to a live controller and its \<open>data\<close> to a
  live list: \<open>listAppend\<close> is the controller's \<open>addOption\<close> called on that controller
  with the value it was given, and \<open>listClear\<close> is the controller's \<open>clearOptions\<close>
  called on it; \<open>listCount\<close> returns the number of elements of the list \<open>data\<close> points
  to and \<open>listAt\<close>, for an index within the list, the element at that index. The two
  read callbacks take no controller member function and return no store, and their
  results do not depend on the controller objects of the store.
\<close>

theorem list_callbacks:
  assumes "object property = Addr c" and "controllers st c = Some ctl"
      and "data property = Addr d" and "qlists st d = Some xs"
  shows "listAppend addOption property val st = Some (addOption c val st) \<and>
         listClear clearOptions property st = Some (clearOptions c st) \<and>
         listCount property st = Some (word_of_nat (length xs)) \<and>
         (0 \<le> sint i \<and> sint i < int (length xs) \<longrightarrow>
            listAt property i st = Some (xs ! nat (sint i))) \<and>
         listCount property (st\<lparr>controllers := cs\<rparr>) = listCount property st \<and>
         listAt property i (st\<lparr>controllers := cs\<rparr>) = listAt property i st"
proof -
  from assms(1,2) have ctl: "controllerAt st (object property) = Some c"
    by (simp add: controllerAt_live)
  from assms(3,4) have lst: "qlistAt st (data property) = Some xs"
    by (simp add: qlistAt_live)
  have same: "qlistAt (st\<lparr>controllers := cs\<rparr>) (data property) = qlistAt st (data property)"
    by (simp add: qlistAt_def split: pointer.splits)
  have "listAppend addOption property val st = Some (addOption c val st)"
    using ctl by (simp add: listAppend_def)
  moreover have "listClear clearOptions property st = Some (clearOptions c st)"
    using ctl by (simp add: listClear_def)
  moreover have "listCount property st = Some (word_of_nat (length xs))"
    using lst by (simp add: listCount_def QList_count_def)
  moreover have "0 \<le> sint i \<and> sint i < int (length xs) \<longrightarrow>
      listAt property i st = Some (xs ! nat (sint i))"
    using lst by (simp add: listAt_def QList_value_in_range)
  moreover have "listCount property (st\<lparr>controllers := cs\<rparr>) = listCount property st"
    using same by (simp add: listCount_def)
  moreover have "listAt property i (st\<lparr>controllers := cs\<rparr>) = listAt property i st"
    using same by (simp add: listAt_def)
  ultimately show ?thesis by blast
qed

text \<open>
  A store with one controller at address 0 and its list of two elements at address 1; the
  controller's \<open>addOption\<close> appends to that list and its \<open>clearOptions\<close> empties it.
\<close>

theorem list_callbacks_witness:
  "listAppend (\<lambda>c v s. s\<lparr>qlists := (qlists s)(Suc c \<mapsto> [Addr 5, Addr 6, v])\<rparr>)
     \<lparr>object = Addr 0, data = Addr 1\<rparr> (Addr 7)
     \<lparr>controllers = [0 \<mapsto> ()], qlists = [1 \<mapsto> [Addr 5, Addr 6]]\<rparr>
   = Some \<lparr>controllers = [0 \<mapsto> ()], qlists = [1 \<mapsto> [Addr 5, Addr 6, Addr 7]]\<rparr> \<and>
   listClear (\<lambda>c s. s\<lparr>qlists := (qlists s)(Suc c \<mapsto> [])\<rparr>)
     \<lparr>object = Addr 0, data = Addr 1\<rparr>
     \<lparr>controllers = [0 \<mapsto> ()], qlists = [1 \<mapsto> [Addr 5, Addr 6]]\<rparr>
   = Some \<lparr>controllers = [0 \<mapsto> ()], qlists = [1 \<mapsto> []]\<rparr> \<and>
   listCount \<lparr>object = Addr 0, data = Addr 1\<rparr>
     \<lparr>controllers = [0 \<mapsto> ()], qlists = [1 \<mapsto> [Addr 5, Addr 6]]\<rparr> = Some 2 \<and>
   listAt \<lparr>object = Addr 0, data = Addr 1\<rparr> 1
     \<lparr>controllers = [0 \<mapsto> ()], qlists = [1 \<mapsto> [Addr 5, Addr 6]]\<rparr> = Some (Addr 6)"
  using list_callbacks
    [of "\<lparr>object = Addr 0, data = Addr 1\<rparr>" 0
        "\<lparr>controllers = [0 \<mapsto> ()], qlists = [1 \<mapsto> [Addr 5, Addr 6]]\<rparr>" "()" 1
        "[Addr 5, Addr 6]"
        "\<lambda>c v s. s\<lparr>qlists := (qlists s)(Suc c \<mapsto> [Addr 5, Addr 6, v])\<rparr>" "Addr 7"
        "\<lambda>c s. s\<lparr>qlists := (qlists s)(Suc c \<mapsto> [])\<rparr>" 1]
  by simp

text \<open>
  C10. When the property's \<open>data\<close> points to a live list, \<open>listAt\<close> returns a pointer
  for every index, and for an index below 0 or not below the number of elements the
  pointer is null: no element outside the list is read.
\<close>

theorem listAt_total:
  assumes "data property = Addr d" and "qlists st d = Some xs"
  shows "(\<exists>p. listAt property i st = Some p) \<and>
         (sint i < 0 \<or> int (length xs) \<le> sint i \<longrightarrow> listAt property i st = Some nullptr)"
proof -
  from assms have lst: "qlistAt st (data property) = Some xs"
    by (simp add: qlistAt_live)
  then have val: "listAt property i st = Some (QList_value xs i)"
    by (simp add: listAt_def)
  show ?thesis
  proof (intro conjI impI)
    show "\<exists>p. listAt property i st = Some p"
      using val by simp
  next
    assume "sint i < 0 \<or> int (length xs) \<le> sint i"
    then show "listAt property i st = Some nullptr"
      using val by (simp add: QList_value_out_of_range)
  qed
qed

theorem listAt_total_witness:
  "listAt \<lparr>object = Addr 0, data = Addr 1\<rparr> (- 1)
     \<lparr>controllers = [0 \<mapsto> ()], qlists = [1 \<mapsto> [Addr 5, Addr 6]]\<rparr> = Some nullptr \<and>
   listAt \<lparr>object = Addr 0, data = Addr 1\<rparr> 2
     \<lparr>controllers = [0 \<mapsto> ()], qlists = [1 \<mapsto> [Addr 5, Addr 6]]\<rparr> = Some nullptr \<and>
   listAt \<lparr>object = Addr 0, data = Addr 1\<rparr> 0
     \<lparr>controllers = [0 \<mapsto> ()], qlists = [1 \<mapsto> []]\<rparr> = Some nullptr"
  using listAt_total
    [of "\<lparr>object = Addr 0, data = Addr 1\<rparr>" 1
        "\<lparr>controllers = [0 \<mapsto> ()], qlists = [1 \<mapsto> [Addr 5, Addr 6]]\<rparr>"
        "[Addr 5, Addr 6]" "- 1"]
    listAt_total
    [of "\<lparr>object = Addr 0, data = Addr 1\<rparr>" 1
        "\<lparr>controllers = [0 \<mapsto> ()], qlists = [1 \<mapsto> [Addr 5, Addr 6]]\<rparr>"
        "[Addr 5, Addr 6]" 2]
    listAt_total
    [of "\<lparr>object = Addr 0, data = Addr 1\<rparr>" 1
        "\<lparr>controllers = [0 \<mapsto> ()], qlists = [1 \<mapsto> []]\<rparr>" "[]" 0]
  by simp

end
